theory Spec2Isabelle
  imports Complex_Main "HOL-Library.AList"
begin

section \<open>Values of the host language\<close>

text \<open>
  The labelling tool is one browser script. Its data are JSON values: the dataset is a
  parsed JSON array, and the rating store is serialised with JSON.stringify. A JSON
  object is an association list in insertion order (the order of Object.keys); reading a
  property is \<open>map_of\<close>, and assigning one is \<open>AList.update\<close>, which replaces the
  value in place when the key is there and appends the pair otherwise.

  Numbers are the integers among the JavaScript numbers; strings are lists of code
  units below 256.
\<close>

datatype json =
    JNull
  | JBool bool
  | JNum int
  | JStr string
  | JArr "json list"
  | JObj "(string \<times> json) list"

type_synonym obj = "(string \<times> json) list"

datatype error = TypeError

text \<open>
  Decimal digits of a number, as the conversion of a number to a string writes an integer
  of magnitude below \<open>10\<^sup>2\<^sup>1\<close>.
\<close>

fun show_nat :: "nat \<Rightarrow> string" where
  "show_nat n =
     (if n < 10 then [''0123456789'' ! n]
      else show_nat (n div 10) @ [''0123456789'' ! (n mod 10)])"

declare show_nat.simps [simp del]

definition show_int :: "int \<Rightarrow> string" where
  "show_int i = (if i < 0 then CHR ''-'' # show_nat (nat (- i)) else show_nat (nat i))"

fun join_comma :: "string list \<Rightarrow> string" where
  "join_comma [] = []"
| "join_comma [s] = s"
| "join_comma (s # t # ts) = s @ '','' @ join_comma (t # ts)"

text \<open>
  The conversion a template literal applies to an interpolated value. An array is joined
  with commas, its null elements written as the empty string; a plain object is written
  by Object.prototype.toString. The Item typedef of the script gives \<open>id\<close> the type
  number or string and \<open>uid\<close> the type string, so only the number and string equations
  are met by a dataset of that type. Two values outside that type are not modelled: an
  object with an own property \<open>toString\<close>, for which the conversion throws a TypeError,
  and a number of magnitude \<open>10\<^sup>2\<^sup>1\<close> or more, which is written in exponent form.
\<close>

fun to_string :: "json \<Rightarrow> string" where
  "to_string JNull = ''null''"
| "to_string (JBool b) = (if b then ''true'' else ''false'')"
| "to_string (JNum n) = show_int n"
| "to_string (JStr s) = s"
| "to_string (JArr xs) = join_comma (map (\<lambda>x. if x = JNull then [] else to_string x) xs)"
| "to_string (JObj kvs) = ''[object Object]''"

text \<open>\<open>a ?? b\<close>: the left operand unless it is undefined (the property is missing) or null.\<close>

fun nullish :: "json option \<Rightarrow> json \<Rightarrow> json" where
  "nullish None d = d"
| "nullish (Some JNull) d = d"
| "nullish (Some v) d = v"

text \<open>\<open>typeof v === "string"\<close> for a property that was read from an object.\<close>

fun is_string :: "json option \<Rightarrow> bool" where
  "is_string (Some (JStr s)) = True"
| "is_string v = False"

text \<open>The value of a field after a coercion to string: the string it held, else the default.\<close>

fun string_or :: "json \<Rightarrow> json option \<Rightarrow> json" where
  "string_or d (Some (JStr s)) = JStr s"
| "string_or d v = d"

text \<open>\<open>s || null\<close> for a string: the empty string is falsy.\<close>

definition or_null :: "string \<Rightarrow> string option" where
  "or_null s = (if s = [] then None else Some s)"

text \<open>
  \<open>{ ...v }\<close>: the own enumerable properties of a value. null, booleans and numbers have
  none; a string and an array have one per index.
\<close>

fun spread :: "json \<Rightarrow> obj" where
  "spread (JObj kvs) = kvs"
| "spread (JArr xs) = zip (map show_nat [0..<length xs]) xs"
| "spread (JStr s) = zip (map show_nat [0..<length s]) (map (\<lambda>c. JStr [c]) s)"
| "spread v = []"

text \<open>\<open>xs[i]\<close> for a number \<open>i\<close>: undefined outside the array.\<close>

definition nth_opt :: "'a list \<Rightarrow> int \<Rightarrow> 'a option" where
  "nth_opt xs i = (if 0 \<le> i \<and> i < int (length xs) then Some (xs ! nat i) else None)"

text \<open>String.prototype.trim, on the white space and line terminators below code unit 256.\<close>

definition is_space :: "char \<Rightarrow> bool" where
  "is_space c = (of_char c \<in> {9, 10, 11, 12, 13, 32, 160 :: nat})"

definition trim :: "string \<Rightarrow> string" where
  "trim s = rev (dropWhile is_space (rev (dropWhile is_space s)))"

subsection \<open>Number arithmetic\<close>

text \<open>
  JavaScript numbers are IEEE 754 binary64. A finite number is the rational it denotes;
  \<open>to_double\<close> rounds a rational to the nearest number with a 53-bit significand, ties to
  the even significand. The operands met here are counts and their quotients, far from
  the subnormal and the overflow range, which are not modelled.
\<close>

definition pow2 :: "int \<Rightarrow> rat" where
  "pow2 e = (if 0 \<le> e then 2 ^ nat e else 1 / 2 ^ nat (- e))"

fun bit_length :: "nat \<Rightarrow> nat" where
  "bit_length n = (if n = 0 then 0 else Suc (bit_length (n div 2)))"

declare bit_length.simps [simp del]

definition ilog2 :: "rat \<Rightarrow> int" where
  "ilog2 q =
     (let (a, b) = quotient_of \<bar>q\<bar>;
          d = int (bit_length (nat a)) - int (bit_length (nat b))
      in if pow2 d \<le> \<bar>q\<bar> then d else d - 1)"

definition round_ties_even :: "rat \<Rightarrow> int" where
  "round_ties_even q =
     (let f = \<lfloor>q\<rfloor>; d = q - of_int f
      in if d < 1 / 2 then f else if 1 / 2 < d then f + 1 else if even f then f else f + 1)"

definition to_double :: "rat \<Rightarrow> rat" where
  "to_double q =
     (if q = 0 then 0
      else let e = ilog2 q - 52 in of_int (round_ties_even (q / pow2 e)) * pow2 e)"

definition fdiv :: "rat \<Rightarrow> rat \<Rightarrow> rat" where
  "fdiv x y = to_double (x / y)"

definition fmul :: "rat \<Rightarrow> rat \<Rightarrow> rat" where
  "fmul x y = to_double (x * y)"

text \<open>Math.round: the nearest integer, a tie going up.\<close>

definition math_round :: "rat \<Rightarrow> int" where
  "math_round x = \<lfloor>x + 1 / 2\<rfloor>"

section \<open>Items\<close>

text \<open>
  \<^verbatim>\<open>function sanitizeItem(item) {
    const clean = { ...item };
    if (typeof clean.transcription !== "string") clean.transcription = null;
    if (typeof clean.content !== "string") clean.content = "";
    return clean; }\<close>
\<close>

definition sanitizeItem :: "json \<Rightarrow> obj" where
  "sanitizeItem item =
     (let clean = spread item;
          clean = (if \<not> is_string (map_of clean ''transcription'')
                   then AList.update ''transcription'' JNull clean else clean);
          clean = (if \<not> is_string (map_of clean ''content'')
                   then AList.update ''content'' (JStr []) clean else clean)
      in clean)"

text \<open>
  \<^verbatim>\<open>function makeKey(item) { return `${item.id ?? index}|${item.uid ?? ""}`; }\<close>
  \<open>index\<close> is the module variable holding the cursor, read when the function is called;
  it is the first argument here.
\<close>

definition makeKey :: "int \<Rightarrow> obj \<Rightarrow> string" where
  "makeKey idx item =
     to_string (nullish (map_of item ''id'') (JNum idx)) @ ''|'' @
     to_string (nullish (map_of item ''uid'') (JStr []))"



section \<open>Session state\<close>

text \<open>
  A rating record is the object literal that a save writes into \<open>state.ratingsById\<close>.
  A field that can hold null is an option with \<open>None\<close> for null. The fields that only
  some of the literals have (the four flags and \<open>isComplete\<close>) are options with \<open>None\<close>
  for a field that the literal does not have. \<open>id\<close> and \<open>uid\<close> are copied from the item
  (\<open>item.id ?? null\<close>).
\<close>

record rating =
  itemIndex :: int
  item_id :: json
  item_uid :: json
  category :: "string option"
  valence :: "string option"
  subcategory :: "string option"
  flagged :: "bool option"
  tooShort :: "bool option"
  promotional :: "bool option"
  engagement :: "bool option"
  isComplete :: "bool option"
  rating_raterId :: "string option"
  timestamp :: string

text \<open>\<^verbatim>\<open>const state = { ratingsById: {}, raterId: "" };\<close>\<close>

record state =
  ratingsById :: "(string \<times> rating) list"
  raterId :: string

text \<open>
  The module variables \<open>dataset\<close>, \<open>index\<close> and \<open>state\<close>, and the entry of localStorage
  under STORAGE_KEY: \<open>None\<close> while nothing is stored, otherwise the object that was
  serialised last. Every element of \<open>dataset\<close> is a result of \<open>sanitizeItem\<close>, an object.
\<close>

record session =
  dataset :: "obj list"
  index :: int
  state :: state
  localStorage :: "state option"

text \<open>
  The controls of the page that the save functions read: the value of the three radio
  groups of the ratings form (the empty string when no button is checked) and the four
  check boxes, \<open>None\<close> for a check box that the page does not have.
\<close>

record form =
  category_value :: string
  valence_value :: string
  subcategory_value :: string
  flagCheckbox :: "bool option"
  tooShortCheckbox :: "bool option"
  promotionalCheckbox :: "bool option"
  engagementCheckbox :: "bool option"

record form_values =
  v_category :: string
  v_valence :: string
  v_subcategory :: string
  needsSub :: bool

text \<open>\<open>{ ok: true }\<close> and \<open>{ ok: false, message }\<close>.\<close>

datatype outcome = Ok | NotOk string

text \<open>\<open>el ? !!el.checked : false\<close>, and \<open>el && el.checked\<close> read as a condition.\<close>

fun checked :: "bool option \<Rightarrow> bool" where
  "checked None = False"
| "checked (Some b) = b"

text \<open>\<open>/[23]$/.test(category)\<close>: the last character is 2 or 3.\<close>

definition needs_subcategory :: "string \<Rightarrow> bool" where
  "needs_subcategory c = (c \<noteq> [] \<and> (last c = CHR ''2'' \<or> last c = CHR ''3''))"

definition set_ratings :: "(string \<times> rating) list \<Rightarrow> session \<Rightarrow> session" where
  "set_ratings rs s = s\<lparr>state := (state s)\<lparr>ratingsById := rs\<rparr>\<rparr>"

text \<open>
  \<^verbatim>\<open>function saveState() {
    localStorage.setItem(STORAGE_KEY,
      JSON.stringify({ ratingsById: state.ratingsById, raterId: state.raterId })); }\<close>
\<close>

definition saveState :: "session \<Rightarrow> session" where
  "saveState s =
     s\<lparr>localStorage := Some \<lparr>ratingsById = ratingsById (state s), raterId = raterId (state s)\<rparr>\<rparr>"

text \<open>
  \<^verbatim>\<open>function propagateRaterIdAcrossRatings() {
    const current = state.raterId || null;
    for (const key of Object.keys(state.ratingsById)) {
      const r = state.ratingsById[key];
      if (r && r.raterId !== current) { r.raterId = current; } } }\<close>
  The loop runs over the keys that the store had when it started.
\<close>

fun propagate_loop ::
  "string option \<Rightarrow> string list \<Rightarrow> (string \<times> rating) list \<Rightarrow> (string \<times> rating) list" where
  "propagate_loop current [] rs = rs"
| "propagate_loop current (key # keys) rs =
     propagate_loop current keys
       (case map_of rs key of
          None \<Rightarrow> rs
        | Some r \<Rightarrow>
            if rating_raterId r \<noteq> current
            then AList.update key (r\<lparr>rating_raterId := current\<rparr>) rs else rs)"

definition propagateRaterIdAcrossRatings :: "session \<Rightarrow> session" where
  "propagateRaterIdAcrossRatings s =
     (let current = or_null (raterId (state s))
      in set_ratings
           (propagate_loop current (map fst (ratingsById (state s))) (ratingsById (state s))) s)"

text \<open>
  The handler of the rater id field, for the text \<open>v\<close> in the field:
  \<^verbatim>\<open>state.raterId = elements.raterIdInput.value.trim();
  propagateRaterIdAcrossRatings();
  saveState();\<close>
\<close>

definition raterIdInput_input :: "string \<Rightarrow> session \<Rightarrow> session" where
  "raterIdInput_input v s =
     saveState (propagateRaterIdAcrossRatings (s\<lparr>state := (state s)\<lparr>raterId := trim v\<rparr>\<rparr>))"

section \<open>Reading and validating the form\<close>

text \<open>
  \<^verbatim>\<open>function getFormValues() {
    const category = form.category.value || "";
    const valence = form.valence.value || "";
    const needsSub = /[23]$/.test(category);
    const subcategory = needsSub ? form.subcategory.value || "" : "";
    return { category, valence, subcategory, needsSub }; }\<close>
\<close>

definition getFormValues :: "form \<Rightarrow> form_values" where
  "getFormValues f =
     (let category = category_value f;
          valence = valence_value f;
          needs = needs_subcategory category;
          subcategory = (if needs then subcategory_value f else [])
      in \<lparr>v_category = category, v_valence = valence, v_subcategory = subcategory,
          needsSub = needs\<rparr>)"

text \<open>
  \<^verbatim>\<open>function validate(values) {
    if (elements.tooShortCheckbox && elements.tooShortCheckbox.checked) return { ok: true };
    if (!values.category) return { ok: false, message: "Please select a Category." };
    if (!values.valence) return { ok: false, message: "Please select a Valence." };
    if (values.needsSub && !values.subcategory)
      return { ok: false, message: "Please select a Subcategory." };
    return { ok: true }; }\<close>
\<close>

definition validate :: "form \<Rightarrow> form_values \<Rightarrow> outcome" where
  "validate f values =
     (if checked (tooShortCheckbox f) then Ok
      else if v_category values = [] then NotOk ''Please select a Category.''
      else if v_valence values = [] then NotOk ''Please select a Valence.''
      else if needsSub values \<and> v_subcategory values = [] then NotOk ''Please select a Subcategory.''
      else Ok)"

section \<open>Saving\<close>

text \<open>
  Both saves take the clock reading \<open>now\<close> (the string that melbourneNowISO returns) and
  the controls of the page. \<open>dataset[index]\<close> outside the array is undefined, and makeKey
  then throws a TypeError. updateProgress, called last, writes to the page only.

  \<^verbatim>\<open>function saveCurrent() {
    if (!dataset.length) return { ok: false, message: "No dataset" };
    const item = dataset[index];
    const key = makeKey(item);
    const values = getFormValues();
    const v = validate(values);
    if (!v.ok) return v;
    const isTooShort = elements.tooShortCheckbox && elements.tooShortCheckbox.checked;
    state.ratingsById[key] = {
      itemIndex: index, id: item.id ?? null, uid: item.uid ?? null,
      category: isTooShort ? null : values.category,
      valence: isTooShort ? null : values.valence,
      subcategory: isTooShort ? null : (values.needsSub ? values.subcategory : null),
      flagged: ..., tooShort: ..., promotional: ..., engagement: ...,
      raterId: state.raterId || null, timestamp: melbourneNowISO() };
    saveState(); updateProgress();
    return { ok: true }; }\<close>
\<close>

definition saveCurrent :: "string \<Rightarrow> form \<Rightarrow> session \<Rightarrow> error + outcome \<times> session" where
  "saveCurrent now f s =
     (if dataset s = [] then Inr (NotOk ''No dataset'', s)
      else case nth_opt (dataset s) (index s) of
        None \<Rightarrow> Inl TypeError
      | Some item \<Rightarrow>
          let key = makeKey (index s) item;
              values = getFormValues f;
              v = validate f values
          in if v \<noteq> Ok then Inr (v, s)
             else
               let isTooShort = checked (tooShortCheckbox f);
                   r = \<lparr>itemIndex = index s,
                        item_id = nullish (map_of item ''id'') JNull,
                        item_uid = nullish (map_of item ''uid'') JNull,
                        category = (if isTooShort then None else Some (v_category values)),
                        valence = (if isTooShort then None else Some (v_valence values)),
                        subcategory =
                          (if isTooShort then None
                           else if needsSub values then Some (v_subcategory values) else None),
                        flagged = Some (checked (flagCheckbox f)),
                        tooShort = Some (checked (tooShortCheckbox f)),
                        promotional = Some (checked (promotionalCheckbox f)),
                        engagement = Some (checked (engagementCheckbox f)),
                        isComplete = None,
                        rating_raterId = or_null (raterId (state s)),
                        timestamp = now\<rparr>
               in Inr (Ok, saveState (set_ratings (AList.update key r (ratingsById (state s))) s)))"

text \<open>
  \<^verbatim>\<open>function savePartialProgress() {
    if (!dataset.length) return;
    const item = dataset[index];
    const key = makeKey(item);
    const values = getFormValues();
    const isComplete = !!(
      (values.category && values.valence && (!values.needsSub || values.subcategory)) ||
      (elements.tooShortCheckbox && elements.tooShortCheckbox.checked));
    const isTooShort = elements.tooShortCheckbox && elements.tooShortCheckbox.checked;
    state.ratingsById[key] = {
      itemIndex: index, id: item.id ?? null, uid: item.uid ?? null,
      category: isTooShort ? null : (values.category || null),
      valence: isTooShort ? null : (values.valence || null),
      subcategory: isTooShort ? null : (values.needsSub ? values.subcategory || null : null),
      flagged: ..., tooShort: ..., promotional: ..., engagement: ...,
      isComplete, raterId: state.raterId || null, timestamp: melbourneNowISO() };
    saveState(); updateProgress(); }\<close>
\<close>

definition savePartialProgress :: "string \<Rightarrow> form \<Rightarrow> session \<Rightarrow> error + session" where
  "savePartialProgress now f s =
     (if dataset s = [] then Inr s
      else case nth_opt (dataset s) (index s) of
        None \<Rightarrow> Inl TypeError
      | Some item \<Rightarrow>
          let key = makeKey (index s) item;
              values = getFormValues f;
              complete =
                ((v_category values \<noteq> [] \<and> v_valence values \<noteq> [] \<and>
                  (\<not> needsSub values \<or> v_subcategory values \<noteq> [])) \<or>
                 checked (tooShortCheckbox f));
              isTooShort = checked (tooShortCheckbox f);
              r = \<lparr>itemIndex = index s,
                   item_id = nullish (map_of item ''id'') JNull,
                   item_uid = nullish (map_of item ''uid'') JNull,
                   category = (if isTooShort then None else or_null (v_category values)),
                   valence = (if isTooShort then None else or_null (v_valence values)),
                   subcategory =
                     (if isTooShort then None
                      else if needsSub values then or_null (v_subcategory values) else None),
                   flagged = Some (checked (flagCheckbox f)),
                   tooShort = Some (checked (tooShortCheckbox f)),
                   promotional = Some (checked (promotionalCheckbox f)),
                   engagement = Some (checked (engagementCheckbox f)),
                   isComplete = Some complete,
                   rating_raterId = or_null (raterId (state s)),
                   timestamp = now\<rparr>
          in Inr (saveState (set_ratings (AList.update key r (ratingsById (state s))) s)))"

section \<open>Progress, navigation and export\<close>

text \<open>
  \<^verbatim>\<open>function updateProgress() {
    const total = dataset.length;
    let done = 0;
    for (let i = 0; i < dataset.length; i++) {
      const key = makeKey(dataset[i]);
      const r = state.ratingsById[key];
      if (r && r.isComplete) done++; }
    const pct = total ? Math.round((done / total) * 100) : 0;
    elements.progressText.textContent = `${done}/${total} labelled`;
    elements.progressBar.style.width = `${pct}%`; ... }\<close>
  The result is what the function shows on the page. makeKey is called with the item
  only, so inside the loop it still reads the cursor \<open>index\<close>, not the loop variable.
\<close>

record progress =
  labelled :: nat
  total :: nat
  pct :: int

fun progress_loop :: "int \<Rightarrow> (string \<times> rating) list \<Rightarrow> obj list \<Rightarrow> nat \<Rightarrow> nat" where
  "progress_loop idx rs [] n = n"
| "progress_loop idx rs (item # items) n =
     progress_loop idx rs items
       (case map_of rs (makeKey idx item) of
          None \<Rightarrow> n
        | Some r \<Rightarrow> if isComplete r = Some True then Suc n else n)"

text \<open>The store holds under \<open>key\<close> a record whose \<open>isComplete\<close> is true.\<close>

definition record_complete :: "(string \<times> rating) list \<Rightarrow> string \<Rightarrow> bool" where
  "record_complete rs key =
     (case map_of rs key of None \<Rightarrow> False | Some r \<Rightarrow> isComplete r = Some True)"

definition percent :: "nat \<Rightarrow> nat \<Rightarrow> int" where
  "percent n t = (if t \<noteq> 0 then math_round (fmul (fdiv (of_nat n) (of_nat t)) 100) else 0)"

definition updateProgress :: "session \<Rightarrow> progress" where
  "updateProgress s =
     (let t = length (dataset s);
          n = progress_loop (index s) (ratingsById (state s)) (dataset s) 0
      in \<lparr>labelled = n, total = t, pct = percent n t\<rparr>)"

text \<open>
  \<^verbatim>\<open>function go(delta) {
    if (!dataset.length) return;
    const next = Math.min(Math.max(index + delta, 0), dataset.length - 1);
    if (next === index) return;
    index = next;
    render(); }\<close>
  render writes to the page only.
\<close>

definition go :: "int \<Rightarrow> session \<Rightarrow> session" where
  "go delta s =
     (if dataset s = [] then s
      else let next = min (max (index s + delta) 0) (int (length (dataset s)) - 1)
           in if next = index s then s else s\<lparr>index := next\<rparr>)"

text \<open>
  \<^verbatim>\<open>function setDataset(items) {
    dataset = (items || []).map(sanitizeItem);
    index = 0; ... }\<close>
\<close>

definition setDataset :: "json list \<Rightarrow> session \<Rightarrow> session" where
  "setDataset items s = s\<lparr>dataset := map sanitizeItem items, index := 0\<rparr>"

text \<open>
  The handler of the jump button, for the result \<open>val\<close> of parseInt on the jump field
  (\<open>None\<close> when it is not a number):
  \<^verbatim>\<open>if (!Number.isFinite(val)) return;
  const target = val - 1;
  if (target >= 0 && target < dataset.length) {
    savePartialProgress(); index = target; render();
  } else { alert(...); }\<close>
\<close>

definition jumpBtn_click :: "int option \<Rightarrow> string \<Rightarrow> form \<Rightarrow> session \<Rightarrow> error + session" where
  "jumpBtn_click val now f s =
     (case val of
        None \<Rightarrow> Inr s
      | Some n \<Rightarrow>
          let target = n - 1
          in if 0 \<le> target \<and> target < int (length (dataset s))
             then (case savePartialProgress now f s of
                     Inl e \<Rightarrow> Inl e
                   | Inr s' \<Rightarrow> Inr (s'\<lparr>index := target\<rparr>))
             else Inr s)"

text \<open>The cursor is inside the dataset, unless the dataset is empty.\<close>

definition cursor_ok :: "session \<Rightarrow> bool" where
  "cursor_ok s = (dataset s = [] \<or> (0 \<le> index s \<and> index s < int (length (dataset s))))"

text \<open>
  The payload that exportJson serialises into the downloaded file:
  \<^verbatim>\<open>const ratings = Object.values(state.ratingsById).map((r) => ({
    ...r, raterId: state.raterId || r.raterId || null }));
  const payload = { raterId: state.raterId || null, createdAt: melbourneNowISO(),
    datasetSize: dataset.length, ratings };\<close>
\<close>

record payload =
  payload_raterId :: "string option"
  createdAt :: string
  datasetSize :: nat
  ratings :: "rating list"

text \<open>\<open>state.raterId || r.raterId || null\<close>\<close>

definition export_raterId :: "string \<Rightarrow> rating \<Rightarrow> string option" where
  "export_raterId sid r =
     (if sid \<noteq> [] then Some sid
      else case rating_raterId r of None \<Rightarrow> None | Some t \<Rightarrow> or_null t)"

definition exportJson :: "string \<Rightarrow> session \<Rightarrow> payload" where
  "exportJson now s =
     (let rs = map (\<lambda>r. r\<lparr>rating_raterId := export_raterId (raterId (state s)) r\<rparr>)
                 (map snd (ratingsById (state s)))
      in \<lparr>payload_raterId = or_null (raterId (state s)), createdAt = now,
          datasetSize = length (dataset s), ratings = rs\<rparr>)"

text \<open>
  Two properties of the store that the handlers keep: every record carries the session
  rater id (null for the empty one), and no key occurs twice.
\<close>

definition raters_consistent :: "session \<Rightarrow> bool" where
  "raters_consistent s =
     list_all (\<lambda>r. rating_raterId r = or_null (raterId (state s)))
       (map snd (ratingsById (state s)))"

definition keys_distinct :: "session \<Rightarrow> bool" where
  "keys_distinct s = distinct (map fst (ratingsById (state s)))"

section \<open>The variant in script.js\<close>

text \<open>
  script.js is an earlier copy of the same script. sanitizeItem, makeKey, getFormValues,
  saveState, go and the computation of updateProgress are the same text. The page has no
  "too short" check box there, the saved literals have fewer fields, and exportJson exports
  the records as they are stored.
\<close>

definition validate_script :: "form_values \<Rightarrow> outcome" where
  "validate_script values =
     (if v_category values = [] then NotOk ''Please select a Category.''
      else if v_valence values = [] then NotOk ''Please select a Valence.''
      else if needsSub values \<and> v_subcategory values = [] then NotOk ''Please select a Subcategory.''
      else Ok)"

definition saveCurrent_script :: "string \<Rightarrow> form \<Rightarrow> session \<Rightarrow> error + outcome \<times> session" where
  "saveCurrent_script now f s =
     (if dataset s = [] then Inr (NotOk ''No dataset'', s)
      else case nth_opt (dataset s) (index s) of
        None \<Rightarrow> Inl TypeError
      | Some item \<Rightarrow>
          let key = makeKey (index s) item;
              values = getFormValues f;
              v = validate_script values
          in if v \<noteq> Ok then Inr (v, s)
             else
               let r = \<lparr>itemIndex = index s,
                        item_id = nullish (map_of item ''id'') JNull,
                        item_uid = nullish (map_of item ''uid'') JNull,
                        category = Some (v_category values),
                        valence = Some (v_valence values),
                        subcategory =
                          (if needsSub values then Some (v_subcategory values) else None),
                        flagged = None, tooShort = None, promotional = None,
                        engagement = None, isComplete = None,
                        rating_raterId = or_null (raterId (state s)),
                        timestamp = now\<rparr>
               in Inr (Ok, saveState (set_ratings (AList.update key r (ratingsById (state s))) s)))"

definition savePartialProgress_script :: "string \<Rightarrow> form \<Rightarrow> session \<Rightarrow> error + session" where
  "savePartialProgress_script now f s =
     (if dataset s = [] then Inr s
      else case nth_opt (dataset s) (index s) of
        None \<Rightarrow> Inl TypeError
      | Some item \<Rightarrow>
          let key = makeKey (index s) item;
              values = getFormValues f;
              complete =
                (v_category values \<noteq> [] \<and> v_valence values \<noteq> [] \<and>
                 (\<not> needsSub values \<or> v_subcategory values \<noteq> []));
              r = \<lparr>itemIndex = index s,
                   item_id = nullish (map_of item ''id'') JNull,
                   item_uid = nullish (map_of item ''uid'') JNull,
                   category = or_null (v_category values),
                   valence = or_null (v_valence values),
                   subcategory =
                     (if needsSub values then or_null (v_subcategory values) else None),
                   flagged = Some (checked (flagCheckbox f)),
                   tooShort = None, promotional = None, engagement = None,
                   isComplete = Some complete,
                   rating_raterId = or_null (raterId (state s)),
                   timestamp = now\<rparr>
          in Inr (saveState (set_ratings (AList.update key r (ratingsById (state s))) s)))"

definition exportJson_script :: "string \<Rightarrow> session \<Rightarrow> payload" where
  "exportJson_script now s =
     \<lparr>payload_raterId = or_null (raterId (state s)), createdAt = now,
      datasetSize = length (dataset s), ratings = map snd (ratingsById (state s))\<rparr>"

section \<open>Sample sessions\<close>

text \<open>
  Two items without \<open>id\<close>, told apart by \<open>uid\<close>; a form with every field chosen; the same
  form with "too short to code" checked; and a form with no valence.
\<close>

definition two_items :: "obj list" where
  "two_items =
     [[(''uid'', JStr ''a''), (''content'', JStr ''x''), (''transcription'', JNull)],
      [(''uid'', JStr ''b''), (''content'', JStr ''y''), (''transcription'', JNull)]]"

definition fresh_session :: session where
  "fresh_session =
     \<lparr>dataset = two_items, index = 0,
      state = \<lparr>ratingsById = [], raterId = ''r1''\<rparr>, localStorage = None\<rparr>"

definition empty_session :: session where
  "empty_session =
     \<lparr>dataset = [], index = 0,
      state = \<lparr>ratingsById = [], raterId = ''r1''\<rparr>, localStorage = None\<rparr>"

definition full_form :: form where
  "full_form =
     \<lparr>category_value = ''2'', valence_value = ''pos'', subcategory_value = ''x'',
      flagCheckbox = Some False, tooShortCheckbox = Some False,
      promotionalCheckbox = Some False, engagementCheckbox = Some False\<rparr>"

definition too_short_form :: form where
  "too_short_form = full_form\<lparr>category_value := ''1'', tooShortCheckbox := Some True\<rparr>"

definition no_valence_form :: form where
  "no_valence_form = full_form\<lparr>valence_value := []\<rparr>"

definition blank_form :: form where
  "blank_form =
     \<lparr>category_value = [], valence_value = [], subcategory_value = [],
      flagCheckbox = Some False, tooShortCheckbox = Some False,
      promotionalCheckbox = Some False, engagementCheckbox = Some False\<rparr>"

text \<open>The record that a partial autosave of \<open>full_form\<close> stores for the first item.\<close>

definition first_rating :: rating where
  "first_rating =
     \<lparr>itemIndex = 0, item_id = JNull, item_uid = JStr ''a'',
      category = Some ''2'', valence = Some ''pos'', subcategory = Some ''x'',
      flagged = Some False, tooShort = Some False, promotional = Some False,
      engagement = Some False, isComplete = Some True,
      rating_raterId = Some ''r1'', timestamp = ''t0''\<rparr>"

definition rated_session :: session where
  "rated_session =
     fresh_session\<lparr>state := \<lparr>ratingsById = [(''0|a'', first_rating)], raterId = ''r1''\<rparr>,
       localStorage := Some \<lparr>ratingsById = [(''0|a'', first_rating)], raterId = ''r1''\<rparr>\<rparr>"

text \<open>A store whose record carries rater r1 while the session rater is r2 or empty.\<close>

definition stale_session :: session where
  "stale_session = rated_session\<lparr>state := (state rated_session)\<lparr>raterId := ''r2''\<rparr>\<rparr>"

definition anonymous_rating :: rating where
  "anonymous_rating = first_rating\<lparr>rating_raterId := None\<rparr>"

definition late_rater_session :: session where
  "late_rater_session =
     fresh_session\<lparr>state := \<lparr>ratingsById = [(''0|a'', anonymous_rating)], raterId = ''r2''\<rparr>\<rparr>"







section \<open>Basic facts\<close>

lemma nth_opt_Some_nonempty: "nth_opt xs i = Some x \<Longrightarrow> xs \<noteq> []"
  by (auto simp: nth_opt_def split: if_splits)

lemma state_saveState [simp]: "state (saveState s) = state s"
  and dataset_saveState [simp]: "dataset (saveState s) = dataset s"
  and index_saveState [simp]: "index (saveState s) = index s"
  and localStorage_saveState [simp]: "localStorage (saveState s) = Some (state s)"
  by (simp_all add: saveState_def)

lemma ratings_set_ratings [simp]: "ratingsById (state (set_ratings rs s)) = rs"
  and raterId_set_ratings [simp]: "raterId (state (set_ratings rs s)) = raterId (state s)"
  and dataset_set_ratings [simp]: "dataset (set_ratings rs s) = dataset s"
  and index_set_ratings [simp]: "index (set_ratings rs s) = index s"
  by (simp_all add: set_ratings_def)

section \<open>Saving with "too short to code" checked\<close>

text \<open>
  Claim C1. While the "too short to code" box is checked, a strict save and a partial
  autosave at an item of the dataset both succeed, and the record they store under the
  item's key has \<open>category\<close>, \<open>valence\<close> and \<open>subcategory\<close> null whatever the form holds;
  the record of the partial autosave has \<open>isComplete\<close> true and \<open>tooShort\<close> true. The
  store is written through to localStorage.
\<close>

theorem too_short_forces_null:
  assumes "checked (tooShortCheckbox f)" and "nth_opt (dataset s) (index s) = Some item"
  shows "\<exists>s1 r1 s2 r2.
           saveCurrent now f s = Inr (Ok, s1) \<and>
           ratingsById (state s1) =
             AList.update (makeKey (index s) item) r1 (ratingsById (state s)) \<and>
           map_of (ratingsById (state s1)) (makeKey (index s) item) = Some r1 \<and>
           localStorage s1 = Some (state s1) \<and>
           category r1 = None \<and> valence r1 = None \<and> subcategory r1 = None \<and>
           tooShort r1 = Some True \<and>
           savePartialProgress now f s = Inr s2 \<and>
           ratingsById (state s2) =
             AList.update (makeKey (index s) item) r2 (ratingsById (state s)) \<and>
           map_of (ratingsById (state s2)) (makeKey (index s) item) = Some r2 \<and>
           localStorage s2 = Some (state s2) \<and>
           category r2 = None \<and> valence r2 = None \<and> subcategory r2 = None \<and>
           isComplete r2 = Some True \<and> tooShort r2 = Some True"
proof -
  from assms(2) have ne: "dataset s \<noteq> []" by (rule nth_opt_Some_nonempty)
  from assms(1) have v: "validate f (getFormValues f) = Ok" by (simp add: validate_def)
  show ?thesis
    using assms ne v
    by (simp add: saveCurrent_def savePartialProgress_def Let_def update_conv')
qed

theorem too_short_forces_null_witness:
  "checked (tooShortCheckbox too_short_form) \<and>
   category_value too_short_form = ''1'' \<and>
   nth_opt (dataset fresh_session) (index fresh_session) = Some (hd two_items) \<and>
   (\<exists>s1 r1 s2 r2.
      saveCurrent ''t0'' too_short_form fresh_session = Inr (Ok, s1) \<and>
      map_of (ratingsById (state s1)) ''0|a'' = Some r1 \<and>
      category r1 = None \<and> valence r1 = None \<and> subcategory r1 = None \<and>
      savePartialProgress ''t0'' too_short_form fresh_session = Inr s2 \<and>
      map_of (ratingsById (state s2)) ''0|a'' = Some r2 \<and>
      category r2 = None \<and> valence r2 = None \<and> subcategory r2 = None \<and>
      isComplete r2 = Some True \<and> tooShort r2 = Some True)"
proof -
  have a: "checked (tooShortCheckbox too_short_form)"
    by (simp add: too_short_form_def)
  have b: "nth_opt (dataset fresh_session) (index fresh_session) = Some (hd two_items)"
    by (simp add: nth_opt_def fresh_session_def two_items_def)
  have c: "category_value too_short_form = ''1''"
    by (simp add: too_short_form_def)
  have k: "makeKey (index fresh_session) (hd two_items) = ''0|a''"
    by (simp add: makeKey_def fresh_session_def two_items_def show_int_def show_nat.simps)
  from too_short_forces_null [OF a b, of "''t0''"] obtain s1 r1 s2 r2 where
    "saveCurrent ''t0'' too_short_form fresh_session = Inr (Ok, s1)"
    "map_of (ratingsById (state s1)) ''0|a'' = Some r1"
    "category r1 = None" "valence r1 = None" "subcategory r1 = None"
    "savePartialProgress ''t0'' too_short_form fresh_session = Inr s2"
    "map_of (ratingsById (state s2)) ''0|a'' = Some r2"
    "category r2 = None" "valence r2 = None" "subcategory r2 = None"
    "isComplete r2 = Some True" "tooShort r2 = Some True"
    unfolding k by blast
  with a b c show ?thesis by blast
qed

section \<open>Strict save of an incomplete form\<close>

text \<open>
  Claim C4. With the "too short to code" box not checked and a required field missing (no
  category, no valence, or a category that needs a subcategory and none chosen), a strict
  save returns \<open>{ok: false, message}\<close> and the session is the one it started from: the
  store, the rater id and localStorage are as before. The cursor is taken inside the
  dataset, as \<open>setDataset\<close> and \<open>go\<close> leave it.
\<close>

theorem strict_save_rejects_incomplete_form:
  assumes "cursor_ok s" and "\<not> checked (tooShortCheckbox f)"
    and "category_value f = [] \<or> valence_value f = [] \<or>
         (needs_subcategory (category_value f) \<and> subcategory_value f = [])"
  shows "\<exists>m. saveCurrent now f s = Inr (NotOk m, s)"
proof (cases "dataset s = []")
  case True
  then show ?thesis by (simp add: saveCurrent_def)
next
  case False
  with assms(1) obtain item where item: "nth_opt (dataset s) (index s) = Some item"
    by (auto simp: cursor_ok_def nth_opt_def)
  from assms(2,3) have "\<exists>m. validate f (getFormValues f) = NotOk m"
    by (auto simp: validate_def getFormValues_def Let_def)
  then obtain m where "validate f (getFormValues f) = NotOk m" ..
  with False item show ?thesis by (simp add: saveCurrent_def Let_def)
qed

theorem strict_save_rejects_incomplete_form_witness:
  "cursor_ok fresh_session \<and> \<not> checked (tooShortCheckbox no_valence_form) \<and>
   valence_value no_valence_form = [] \<and>
   (\<exists>m. saveCurrent ''t0'' no_valence_form fresh_session = Inr (NotOk m, fresh_session))"
proof -
  have a: "cursor_ok fresh_session"
    by (simp add: cursor_ok_def fresh_session_def two_items_def)
  have b: "\<not> checked (tooShortCheckbox no_valence_form)"
    by (simp add: no_valence_form_def full_form_def)
  have c: "valence_value no_valence_form = []"
    by (simp add: no_valence_form_def)
  from strict_save_rejects_incomplete_form [OF a b, of "''t0''"] c a b show ?thesis by blast
qed

section \<open>Navigation\<close>

lemma cursor_ok_setDataset: "cursor_ok (setDataset items s)"
  by (cases items) (simp_all add: cursor_ok_def setDataset_def)

lemma cursor_ok_go: "cursor_ok s \<Longrightarrow> cursor_ok (go delta s)"
  by (auto simp: cursor_ok_def go_def Let_def)

lemma savePartialProgress_cursor:
  "savePartialProgress now f s = Inr s' \<Longrightarrow> dataset s' = dataset s \<and> index s' = index s"
  by (auto simp: savePartialProgress_def Let_def split: if_splits option.splits)

lemma saveCurrent_cursor:
  "saveCurrent now f s = Inr (v, s') \<Longrightarrow> dataset s' = dataset s \<and> index s' = index s"
  by (auto simp: saveCurrent_def Let_def split: if_splits option.splits)

lemma cursor_ok_savePartialProgress:
  "cursor_ok s \<Longrightarrow> savePartialProgress now f s = Inr s' \<Longrightarrow> cursor_ok s'"
  using savePartialProgress_cursor [of now f s s'] by (simp add: cursor_ok_def)

lemma cursor_ok_saveCurrent:
  "cursor_ok s \<Longrightarrow> saveCurrent now f s = Inr (v, s') \<Longrightarrow> cursor_ok s'"
  using saveCurrent_cursor [of now f s v s'] by (simp add: cursor_ok_def)

lemma cursor_ok_raterIdInput_input: "cursor_ok (raterIdInput_input v s) = cursor_ok s"
  by (simp add: cursor_ok_def raterIdInput_input_def propagateRaterIdAcrossRatings_def Let_def)

lemma cursor_ok_jumpBtn_click:
  "cursor_ok s \<Longrightarrow> jumpBtn_click val now f s = Inr s' \<Longrightarrow> cursor_ok s'"
  using savePartialProgress_cursor [of now f s]
  by (auto simp: jumpBtn_click_def Let_def cursor_ok_def split: option.splits if_splits sum.splits)

lemma cursor_ok_never_throws:
  "cursor_ok s \<Longrightarrow> saveCurrent now f s \<noteq> Inl e \<and> savePartialProgress now f s \<noteq> Inl e"
  by (auto simp: cursor_ok_def saveCurrent_def savePartialProgress_def nth_opt_def Let_def)

text \<open>
  Claim C6. On a dataset of length N \<open>\<ge>\<close> 1 with the cursor in [0, N-1], \<open>go delta\<close> sets the
  cursor to \<open>index + delta\<close> clamped into [0, N-1], so it stays in that range, and
  \<open>go 0\<close> changes nothing; on an empty dataset \<open>go delta\<close> changes nothing. \<open>go\<close> never
  touches the dataset, the store or localStorage.
\<close>

theorem go_keeps_cursor_in_range:
  "(dataset s \<noteq> [] \<and> 0 \<le> index s \<and> index s < int (length (dataset s)) \<longrightarrow>
      index (go delta s) = min (max (index s + delta) 0) (int (length (dataset s)) - 1) \<and>
      0 \<le> index (go delta s) \<and> index (go delta s) < int (length (dataset s)) \<and>
      go 0 s = s) \<and>
   (dataset s = [] \<longrightarrow> go delta s = s) \<and>
   dataset (go delta s) = dataset s \<and> state (go delta s) = state s \<and>
   localStorage (go delta s) = localStorage s"
  by (auto simp: go_def Let_def)

theorem go_keeps_cursor_in_range_witness:
  "dataset fresh_session \<noteq> [] \<and> 0 \<le> index fresh_session \<and>
   index fresh_session < int (length (dataset fresh_session)) \<and>
   index (go 5 fresh_session) = 1 \<and> index (go (- 3) fresh_session) = 0 \<and>
   go 0 fresh_session = fresh_session \<and>
   dataset empty_session = [] \<and> go 5 empty_session = empty_session"
  using go_keeps_cursor_in_range [of fresh_session 5]
    go_keeps_cursor_in_range [of fresh_session "- 3"]
    go_keeps_cursor_in_range [of empty_session 5]
  by (simp add: fresh_session_def empty_session_def two_items_def)

section \<open>Saving with no dataset\<close>

text \<open>
  Claim C10. On an empty dataset a strict save returns \<open>{ok: false, message: "No dataset"}\<close>
  and a partial autosave returns at once; the session, with its store, rater id and
  localStorage, is unchanged. The same holds in script.js.
\<close>

theorem empty_dataset_saves_nothing:
  assumes "dataset s = []"
  shows "saveCurrent now f s = Inr (NotOk ''No dataset'', s) \<and>
         savePartialProgress now f s = Inr s \<and>
         saveCurrent_script now f s = Inr (NotOk ''No dataset'', s) \<and>
         savePartialProgress_script now f s = Inr s"
  using assms
  by (simp add: saveCurrent_def savePartialProgress_def saveCurrent_script_def
      savePartialProgress_script_def)

theorem empty_dataset_saves_nothing_witness:
  "dataset empty_session = [] \<and>
   saveCurrent ''t0'' full_form empty_session = Inr (NotOk ''No dataset'', empty_session) \<and>
   savePartialProgress ''t0'' full_form empty_session = Inr empty_session \<and>
   saveCurrent_script ''t0'' full_form empty_session =
     Inr (NotOk ''No dataset'', empty_session) \<and>
   savePartialProgress_script ''t0'' full_form empty_session = Inr empty_session"
proof -
  have e: "dataset empty_session = []" by (simp add: empty_session_def)
  from empty_dataset_saves_nothing [OF e, of "''t0''" full_form] e show ?thesis by simp
qed

section \<open>The item sanitizer\<close>

lemma is_string_string_or: "is_string v \<Longrightarrow> v = Some (string_or d v)"
  by (induction d v rule: string_or.induct) simp_all

lemma not_is_string_string_or: "\<not> is_string v \<Longrightarrow> string_or d v = d"
  by (induction d v rule: string_or.induct) simp_all

lemma is_string_string_or_iff:
  "is_string (Some (string_or d v)) = (is_string v \<or> is_string (Some d))"
  by (induction d v rule: string_or.induct) simp_all

lemma sanitizeItem_fields:
  "map_of (sanitizeItem x) =
     (map_of (spread x))
       (''transcription'' \<mapsto> string_or JNull (map_of (spread x) ''transcription''),
        ''content'' \<mapsto> string_or (JStr []) (map_of (spread x) ''content''))"
proof -
  let ?m = "map_of (spread x)"
  have t: "is_string (?m ''transcription'') \<Longrightarrow>
      ?m(''transcription'' \<mapsto> string_or JNull (?m ''transcription'')) = ?m"
    using is_string_string_or [of "?m ''transcription''" JNull] by (simp add: map_upd_triv)
  have c: "is_string (?m ''content'') \<Longrightarrow>
      m ''content'' = ?m ''content'' \<Longrightarrow>
      m(''content'' \<mapsto> string_or (JStr []) (?m ''content'')) = m" for m
    using is_string_string_or [of "?m ''content''" "JStr []"] by (metis fun_upd_triv)
  show ?thesis
    by (simp add: sanitizeItem_def Let_def update_conv' t c not_is_string_string_or)
qed

lemma sanitizeItem_again: "sanitizeItem (JObj (sanitizeItem x)) = sanitizeItem x"
proof -
  let ?y = "sanitizeItem x"
  have t: "map_of ?y ''transcription'' =
      Some (string_or JNull (map_of (spread x) ''transcription''))"
    by (simp add: sanitizeItem_fields)
  have c: "map_of ?y ''content'' = Some (string_or (JStr []) (map_of (spread x) ''content''))"
    by (simp add: sanitizeItem_fields)
  have t': "\<not> is_string (map_of ?y ''transcription'') \<Longrightarrow>
      AList.update ''transcription'' JNull ?y = ?y"
    by (rule update_triv) (simp add: t is_string_string_or_iff not_is_string_string_or)
  have c': "is_string (map_of ?y ''content'')"
    by (simp add: c is_string_string_or_iff)
  show ?thesis
    unfolding sanitizeItem_def [of "JObj ?y"] Let_def spread.simps
    using t' c' by simp
qed

text \<open>
  Claim C8. Sanitizing is idempotent: sanitizing the object that \<open>sanitizeItem\<close> returned
  gives that object again. The result has the properties of the raw value, except that
  \<open>transcription\<close> is the string it held or else null, and \<open>content\<close> is the string it held
  or else the empty string.
\<close>

theorem sanitizeItem_idempotent:
  "sanitizeItem (JObj (sanitizeItem x)) = sanitizeItem x \<and>
   map_of (sanitizeItem x) =
     (map_of (spread x))
       (''transcription'' \<mapsto> string_or JNull (map_of (spread x) ''transcription''),
        ''content'' \<mapsto> string_or (JStr []) (map_of (spread x) ''content''))"
  using sanitizeItem_again [of x] sanitizeItem_fields [of x] by (rule conjI)

section \<open>The rater id\<close>

lemma propagate_loop_lookup:
  "map_of (propagate_loop cur ks rs) k =
     (if k \<in> set ks then map_option (\<lambda>r. r\<lparr>rating_raterId := cur\<rparr>) (map_of rs k)
      else map_of rs k)"
proof (induction ks arbitrary: rs)
  case Nil
  then show ?case by simp
next
  case (Cons key keys)
  show ?case
  proof (cases "map_of rs key")
    case None
    then show ?thesis using Cons.IH [of rs] by auto
  next
    case (Some r)
    show ?thesis
    proof (cases "rating_raterId r = cur")
      case True
      then have "r\<lparr>rating_raterId := cur\<rparr> = r" by auto
      with Some True show ?thesis using Cons.IH [of rs] by auto
    next
      case False
      with Some show ?thesis
        using Cons.IH [of "AList.update key (r\<lparr>rating_raterId := cur\<rparr>) rs"]
        by (auto simp: update_conv')
    qed
  qed
qed

lemma propagate_loop_keys: "map fst (propagate_loop cur ks rs) = map fst rs"
proof (induction ks arbitrary: rs)
  case Nil
  then show ?case by simp
next
  case (Cons key keys)
  have "map_of rs key = Some r \<Longrightarrow> map fst (AList.update key v rs) = map fst rs" for r v
    by (simp add: update_keys) (metis domI dom_map_of_conv_image_fst)
  with Cons.IH show ?case by (simp split: option.splits)
qed

lemma alist_eqI:
  "map fst xs = map fst ys \<Longrightarrow> distinct (map fst xs) \<Longrightarrow> map_of xs = map_of ys \<Longrightarrow> xs = ys"
proof (induction xs arbitrary: ys)
  case Nil
  then show ?case by simp
next
  case (Cons x xs)
  then obtain y ys' where ys: "ys = y # ys'" by (cases ys) auto
  obtain k v where x: "x = (k, v)" by (cases x)
  obtain k' v' where y: "y = (k', v')" by (cases y)
  from Cons.prems(1) ys x y have k: "k' = k" and keys: "map fst xs = map fst ys'" by auto
  from Cons.prems(2) x have kx: "k \<notin> fst ` set xs" and d: "distinct (map fst xs)" by auto
  from kx keys have ky: "k \<notin> fst ` set ys'" by (metis set_map)
  have meq: "map_of (x # xs) j = map_of ys j" for j
    using Cons.prems(3) by (rule fun_cong)
  from meq [of k] x y ys k have v: "v' = v" by simp
  have "map_of xs j = map_of ys' j" for j
  proof (cases "j = k")
    case True
    from kx have "map_of xs k = None" by (simp add: map_of_eq_None_iff)
    moreover from ky have "map_of ys' k = None" by (simp add: map_of_eq_None_iff)
    ultimately show ?thesis using True by simp
  next
    case False
    with meq [of j] x y ys k show ?thesis by simp
  qed
  then have "map_of xs = map_of ys'" by (rule ext)
  with Cons.IH [OF keys d] have "xs = ys'" .
  with x y ys k v show ?case by simp
qed

lemma propagate_loop_distinct:
  assumes "distinct (map fst rs)"
  shows "propagate_loop cur (map fst rs) rs = map (\<lambda>(k, r). (k, r\<lparr>rating_raterId := cur\<rparr>)) rs"
proof (rule alist_eqI)
  show "map fst (propagate_loop cur (map fst rs) rs) =
      map fst (map (\<lambda>(k, r). (k, r\<lparr>rating_raterId := cur\<rparr>)) rs)"
    by (simp add: propagate_loop_keys case_prod_unfold comp_def)
  show "distinct (map fst (propagate_loop cur (map fst rs) rs))"
    using assms by (simp add: propagate_loop_keys)
  show "map_of (propagate_loop cur (map fst rs) rs) =
      map_of (map (\<lambda>(k, r). (k, r\<lparr>rating_raterId := cur\<rparr>)) rs)"
  proof (rule ext)
    fix k
    have "k \<notin> set (map fst rs) \<Longrightarrow> map_of rs k = None"
      by (simp add: map_of_eq_None_iff)
    then show "map_of (propagate_loop cur (map fst rs) rs) k =
        map_of (map (\<lambda>(k, r). (k, r\<lparr>rating_raterId := cur\<rparr>)) rs) k"
      by (auto simp add: propagate_loop_lookup map_of_map)
  qed
qed

lemma trim_r1: "trim ''r1'' = ''r1''" and trim_r2: "trim ''r2'' = ''r2''"
  by (simp_all add: trim_def is_space_def)

lemma raterIdInput_input_lookup:
  "map_of (ratingsById (state (raterIdInput_input v s))) k =
     map_option (\<lambda>r. r\<lparr>rating_raterId := or_null (trim v)\<rparr>) (map_of (ratingsById (state s)) k)"
proof -
  have "k \<notin> fst ` set (ratingsById (state s)) \<Longrightarrow> map_of (ratingsById (state s)) k = None"
    by (simp add: map_of_eq_None_iff)
  then show ?thesis
    by (auto simp add: raterIdInput_input_def propagateRaterIdAcrossRatings_def Let_def
        propagate_loop_lookup)
qed

text \<open>
  Claim C3 says that every record's \<open>raterId\<close> is overwritten with the new value. For the
  empty rater id the session holds the empty string and the records hold null
  (\<open>state.raterId || null\<close>), not the empty string.
\<close>

theorem empty_rater_id_counterexample:
  "raterId (state (raterIdInput_input [] rated_session)) = [] \<and>
   map rating_raterId (map snd (ratingsById (state rated_session))) = [Some ''r1''] \<and>
   map rating_raterId (map snd (ratingsById (state (raterIdInput_input [] rated_session)))) =
     [None] \<and>
   map rating_raterId (map snd (ratingsById (state (raterIdInput_input [] rated_session)))) \<noteq>
     [Some (raterId (state (raterIdInput_input [] rated_session)))]"
  by (simp add: raterIdInput_input_def propagateRaterIdAcrossRatings_def Let_def trim_def
      or_null_def rated_session_def fresh_session_def first_rating_def)

text \<open>
  Claim C3 as amended. Typing \<open>v\<close> into the rater id field sets the session rater id to
  \<open>v\<close> trimmed, and then every record of the store has its \<open>raterId\<close> overwritten with that
  value, or with null when it is empty, nothing else in the store changing; the result
  is written to localStorage. After typing r1 and then r2, every record carries r2.
\<close>

theorem rater_id_is_stamped_on_every_record:
  "raterId (state (raterIdInput_input v s)) = trim v \<and>
   map fst (ratingsById (state (raterIdInput_input v s))) = map fst (ratingsById (state s)) \<and>
   map_of (ratingsById (state (raterIdInput_input v s))) k =
     map_option (\<lambda>r. r\<lparr>rating_raterId := or_null (trim v)\<rparr>) (map_of (ratingsById (state s)) k) \<and>
   (distinct (map fst (ratingsById (state s))) \<longrightarrow>
      ratingsById (state (raterIdInput_input v s)) =
        map (\<lambda>(k, r). (k, r\<lparr>rating_raterId := or_null (trim v)\<rparr>)) (ratingsById (state s))) \<and>
   localStorage (raterIdInput_input v s) = Some (state (raterIdInput_input v s)) \<and>
   map_of (ratingsById (state (raterIdInput_input ''r2'' (raterIdInput_input ''r1'' s)))) k =
     map_option (\<lambda>r. r\<lparr>rating_raterId := Some ''r2''\<rparr>) (map_of (ratingsById (state s)) k)"
proof -
  have a: "raterId (state (raterIdInput_input v s)) = trim v"
    by (simp add: raterIdInput_input_def propagateRaterIdAcrossRatings_def Let_def)
  have b: "map fst (ratingsById (state (raterIdInput_input v s))) = map fst (ratingsById (state s))"
    by (simp add: raterIdInput_input_def propagateRaterIdAcrossRatings_def Let_def
        propagate_loop_keys)
  have c: "distinct (map fst (ratingsById (state s))) \<longrightarrow>
      ratingsById (state (raterIdInput_input v s)) =
        map (\<lambda>(k, r). (k, r\<lparr>rating_raterId := or_null (trim v)\<rparr>)) (ratingsById (state s))"
    by (simp add: raterIdInput_input_def propagateRaterIdAcrossRatings_def Let_def
        propagate_loop_distinct)
  have d: "localStorage (raterIdInput_input v s) = Some (state (raterIdInput_input v s))"
    by (simp add: raterIdInput_input_def)
  have e: "map_of (ratingsById (state (raterIdInput_input ''r2'' (raterIdInput_input ''r1'' s)))) k =
     map_option (\<lambda>r. r\<lparr>rating_raterId := Some ''r2''\<rparr>) (map_of (ratingsById (state s)) k)"
    by (simp add: raterIdInput_input_lookup trim_r1 trim_r2 or_null_def option.map_comp comp_def)
  from a b raterIdInput_input_lookup c d e show ?thesis by blast
qed

theorem rater_id_is_stamped_on_every_record_witness:
  "distinct (map fst (ratingsById (state rated_session))) \<and>
   map snd (ratingsById (state rated_session)) = [first_rating] \<and>
   rating_raterId first_rating = Some ''r1'' \<and>
   ratingsById (state (raterIdInput_input ''r2'' rated_session)) =
     [(''0|a'', first_rating\<lparr>rating_raterId := Some ''r2''\<rparr>)]"
  using rater_id_is_stamped_on_every_record [of "''r2''" rated_session]
  by (simp add: rated_session_def fresh_session_def first_rating_def trim_r2 or_null_def)

section \<open>Progress\<close>

lemma progress_loop_count:
  "progress_loop idx rs items n =
     n + length (filter (\<lambda>item. record_complete rs (makeKey idx item)) items)"
  by (induction items arbitrary: n) (simp_all add: record_complete_def split: option.splits)

text \<open>
  What \<open>updateProgress\<close> shows, in the terms of its own loop: the key is the one that
  \<open>makeKey\<close> derives there, with the cursor as fallback.
\<close>

lemma updateProgress_in_loop_terms:
  "labelled (updateProgress s) =
     length (filter (\<lambda>item. record_complete (ratingsById (state s)) (makeKey (index s) item))
       (dataset s)) \<and>
   total (updateProgress s) = length (dataset s) \<and>
   pct (updateProgress s) =
     (if total (updateProgress s) = 0 then 0
      else math_round (fmul (fdiv (of_nat (labelled (updateProgress s)))
             (of_nat (total (updateProgress s)))) 100))"
  by (simp add: updateProgress_def Let_def progress_loop_count percent_def)

subsection \<open>The percentage on JavaScript numbers\<close>


lemma math_round_0: "math_round 0 = 0"
  by code_simp

lemma percent_none: "percent 0 n = 0"
  by (simp add: percent_def fdiv_def fmul_def to_double_def math_round_0)

lemma percent_half: "percent 1 2 = 50"
  by code_simp




















subsection \<open>The count by position\<close>





















section \<open>Strict save and progress\<close>

lemma record_complete_update:
  "isComplete r = None \<Longrightarrow>
   record_complete (AList.update key r rs) k = (k \<noteq> key \<and> record_complete rs k)"
  by (simp add: record_complete_def update_conv')

lemma saveCurrent_OkD:
  assumes "saveCurrent now f s = Inr (Ok, s')"
  shows "\<exists>item r. nth_opt (dataset s) (index s) = Some item \<and>
           validate f (getFormValues f) = Ok \<and> isComplete r = None \<and>
           s' = saveState (set_ratings
                  (AList.update (makeKey (index s) item) r (ratingsById (state s))) s)"
proof (cases "dataset s = []")
  case True
  with assms show ?thesis by (simp add: saveCurrent_def)
next
  case False
  show ?thesis
  proof (cases "nth_opt (dataset s) (index s)")
    case None
    with False assms show ?thesis by (simp add: saveCurrent_def)
  next
    case (Some item)
    with False assms have v: "validate f (getFormValues f) = Ok"
      by (simp add: saveCurrent_def Let_def split: if_splits)
    with False Some assms show ?thesis
      by (simp add: saveCurrent_def Let_def) (metis rating.select_convs(11))
  qed
qed

lemma saveCurrent_script_OkD:
  assumes "saveCurrent_script now f s = Inr (Ok, s')"
  shows "\<exists>item r. nth_opt (dataset s) (index s) = Some item \<and>
           validate_script (getFormValues f) = Ok \<and> isComplete r = None \<and>
           s' = saveState (set_ratings
                  (AList.update (makeKey (index s) item) r (ratingsById (state s))) s)"
proof (cases "dataset s = []")
  case True
  with assms show ?thesis by (simp add: saveCurrent_script_def)
next
  case False
  show ?thesis
  proof (cases "nth_opt (dataset s) (index s)")
    case None
    with False assms show ?thesis by (simp add: saveCurrent_script_def)
  next
    case (Some item)
    with False assms have v: "validate_script (getFormValues f) = Ok"
      by (simp add: saveCurrent_script_def Let_def split: if_splits)
    with False Some assms show ?thesis
      by (simp add: saveCurrent_script_def Let_def) (metis rating.select_convs(11))
  qed
qed

lemma strict_record_not_counted:
  assumes "isComplete r = None"
    and "s' = saveState (set_ratings (AList.update key r (ratingsById (state s))) s)"
  shows "map_of (ratingsById (state s')) key = Some r \<and>
         \<not> record_complete (ratingsById (state s')) key \<and>
         labelled (updateProgress s') =
           length (filter (\<lambda>it. makeKey (index s) it \<noteq> key \<and>
                      record_complete (ratingsById (state s)) (makeKey (index s) it)) (dataset s))"
  using assms
  by (simp add: updateProgress_def Let_def progress_loop_count record_complete_update update_conv')

text \<open>
  Claim C9. The record that a successful strict save stores (in either copy of the script)
  has no \<open>isComplete\<close> field. The item saved is therefore not counted by \<open>updateProgress\<close>,
  although the form passed validation: after the save, the items counted are those with
  another key whose record was complete before.
\<close>

theorem strict_save_is_not_counted:
  assumes "saveCurrent now f s = Inr (Ok, s') \<or> saveCurrent_script now f s = Inr (Ok, s')"
  shows "\<exists>item r.
           nth_opt (dataset s) (index s) = Some item \<and>
           (validate f (getFormValues f) = Ok \<or> validate_script (getFormValues f) = Ok) \<and>
           map_of (ratingsById (state s')) (makeKey (index s) item) = Some r \<and>
           isComplete r = None \<and>
           \<not> record_complete (ratingsById (state s')) (makeKey (index s') item) \<and>
           labelled (updateProgress s') =
             length (filter (\<lambda>it. makeKey (index s) it \<noteq> makeKey (index s) item \<and>
                        record_complete (ratingsById (state s)) (makeKey (index s) it))
                      (dataset s))"
proof -
  from assms obtain item r where item: "nth_opt (dataset s) (index s) = Some item"
    and v: "validate f (getFormValues f) = Ok \<or> validate_script (getFormValues f) = Ok"
    and r: "isComplete r = None"
    and s': "s' = saveState (set_ratings
                  (AList.update (makeKey (index s) item) r (ratingsById (state s))) s)"
    using saveCurrent_OkD [of now f s s'] saveCurrent_script_OkD [of now f s s'] by blast
  from s' have "index s' = index s" by simp
  with strict_record_not_counted [OF r s'] item v r show ?thesis by auto
qed

lemma makeKey_first: "makeKey 0 (hd two_items) = ''0|a''"
  by (simp add: makeKey_def two_items_def show_int_def show_nat.simps)

theorem strict_save_is_not_counted_witness:
  "(\<exists>s'. saveCurrent ''t0'' full_form fresh_session = Inr (Ok, s') \<and>
      validate full_form (getFormValues full_form) = Ok \<and>
      ratingsById (state fresh_session) = [] \<and>
      (\<exists>r. map_of (ratingsById (state s')) ''0|a'' = Some r \<and> isComplete r = None) \<and>
      labelled (updateProgress s') = 0)"
proof -
  obtain s' where s': "saveCurrent ''t0'' full_form fresh_session = Inr (Ok, s')"
    by (simp add: saveCurrent_def fresh_session_def two_items_def nth_opt_def Let_def
        validate_def getFormValues_def full_form_def needs_subcategory_def)
  have i: "nth_opt (dataset fresh_session) (index fresh_session) = Some (hd two_items)"
    by (simp add: nth_opt_def fresh_session_def two_items_def)
  have e: "ratingsById (state fresh_session) = []" "index fresh_session = 0"
    by (simp_all add: fresh_session_def)
  have v: "validate full_form (getFormValues full_form) = Ok"
    by (simp add: validate_def getFormValues_def full_form_def needs_subcategory_def)
  from strict_save_is_not_counted [OF disjI1, OF s'] i e v s' makeKey_first
  show ?thesis by (auto simp: record_complete_def)
qed

section \<open>Export\<close>

text \<open>
  Claim C7 says that an exported record keeps its own rater id when it has one and gets
  the session rater id only when it has none. In the script the session rater id comes
  first: the record stored with rater r1 is exported with r2 when the session rater is r2.
  In script.js the records are exported as stored: a record stored without a rater id is
  exported without one although the session rater is r2.
\<close>

theorem export_overrides_stored_rater_counterexample:
  "map rating_raterId (map snd (ratingsById (state stale_session))) = [Some ''r1''] \<and>
   raterId (state stale_session) = ''r2'' \<and>
   map rating_raterId (ratings (exportJson ''t1'' stale_session)) = [Some ''r2''] \<and>
   map rating_raterId (map snd (ratingsById (state late_rater_session))) = [None] \<and>
   raterId (state late_rater_session) = ''r2'' \<and>
   map rating_raterId (ratings (exportJson_script ''t1'' late_rater_session)) = [None]"
  by (simp add: stale_session_def rated_session_def fresh_session_def first_rating_def
      late_rater_session_def anonymous_rating_def exportJson_def exportJson_script_def
      export_raterId_def Let_def)

text \<open>
  Claim C7 as amended. exportJson returns every stored record, in the order of the store,
  changed in \<open>raterId\<close> only: the exported \<open>raterId\<close> is the session rater id when that is
  not empty, and otherwise the record's own rater id, or null when it has none or an empty
  one. The payload carries beside them the session rater id (or null), the clock reading
  as \<open>createdAt\<close> and the length of the dataset. In script.js the records are exported
  unchanged.
\<close>

theorem export_stamps_session_rater:
  "list_all2
     (\<lambda>r e. e = r\<lparr>rating_raterId := rating_raterId e\<rparr> \<and>
        rating_raterId e =
          (if raterId (state s) \<noteq> [] then Some (raterId (state s))
           else case rating_raterId r of None \<Rightarrow> None | Some t \<Rightarrow> or_null t))
     (map snd (ratingsById (state s))) (ratings (exportJson now s)) \<and>
   payload_raterId (exportJson now s) = or_null (raterId (state s)) \<and>
   createdAt (exportJson now s) = now \<and>
   datasetSize (exportJson now s) = length (dataset s) \<and>
   ratings (exportJson_script now s) = map snd (ratingsById (state s)) \<and>
   payload_raterId (exportJson_script now s) = or_null (raterId (state s)) \<and>
   createdAt (exportJson_script now s) = now \<and>
   datasetSize (exportJson_script now s) = length (dataset s)"
  by (simp add: exportJson_def exportJson_script_def export_raterId_def Let_def
      list_all2_map1 list_all2_map2 list_all2_same)

text \<open>
  The saves and the rater id handler keep every record's \<open>raterId\<close> equal to the session
  rater id. On such a store exportJson exports the records as they are stored.
\<close>

lemma export_raterId_consistent:
  "rating_raterId r = or_null sid \<Longrightarrow> export_raterId sid r = rating_raterId r"
  by (simp add: export_raterId_def or_null_def)

lemma export_of_consistent_store:
  assumes "raters_consistent s"
  shows "ratings (exportJson now s) = map snd (ratingsById (state s))"
proof -
  have "r\<lparr>rating_raterId := export_raterId (raterId (state s)) r\<rparr> = r"
    if "r \<in> set (map snd (ratingsById (state s)))" for r
  proof -
    from that assms have "rating_raterId r = or_null (raterId (state s))"
      by (auto simp: raters_consistent_def list_all_iff)
    then have "export_raterId (raterId (state s)) r = rating_raterId r"
      by (rule export_raterId_consistent)
    then show ?thesis by simp
  qed
  then show ?thesis
    by (simp add: exportJson_def Let_def map_idI)
qed

lemma list_all_update:
  "list_all P (map snd rs) \<Longrightarrow> P v \<Longrightarrow> list_all P (map snd (AList.update k v rs))"
  by (induction rs) auto

lemma raters_consistent_store:
  assumes "raters_consistent s" and "rating_raterId r = or_null (raterId (state s))"
  shows "raters_consistent (saveState (set_ratings (AList.update key r (ratingsById (state s))) s))"
  using assms by (simp add: raters_consistent_def list_all_update)

lemma raters_consistent_savePartialProgress:
  assumes "raters_consistent s" and "savePartialProgress now f s = Inr s'"
  shows "raters_consistent s'"
proof (cases "dataset s = []")
  case True
  with assms show ?thesis by (simp add: savePartialProgress_def)
next
  case False
  with assms(2) obtain item where "nth_opt (dataset s) (index s) = Some item"
    by (cases "nth_opt (dataset s) (index s)") (simp_all add: savePartialProgress_def)
  with False assms(2) obtain key r where "rating_raterId r = or_null (raterId (state s))"
    and "s' = saveState (set_ratings (AList.update key r (ratingsById (state s))) s)"
    by (simp add: savePartialProgress_def Let_def) (metis rating.select_convs(12))
  with assms(1) show ?thesis by (simp add: raters_consistent_store)
qed

lemma raters_consistent_saveCurrent:
  assumes "raters_consistent s" and "saveCurrent now f s = Inr (v, s')"
  shows "raters_consistent s'"
proof (cases "dataset s = []")
  case True
  with assms show ?thesis by (simp add: saveCurrent_def)
next
  case False
  with assms(2) obtain item where item: "nth_opt (dataset s) (index s) = Some item"
    by (cases "nth_opt (dataset s) (index s)") (simp_all add: saveCurrent_def)
  show ?thesis
  proof (cases "validate f (getFormValues f) = Ok")
    case True
    with False item assms(2) obtain key r where "rating_raterId r = or_null (raterId (state s))"
      and "s' = saveState (set_ratings (AList.update key r (ratingsById (state s))) s)"
      by (simp add: saveCurrent_def Let_def) (metis rating.select_convs(12))
    with assms(1) show ?thesis by (simp add: raters_consistent_store)
  next
    case False
    with \<open>dataset s \<noteq> []\<close> item assms show ?thesis by (simp add: saveCurrent_def Let_def)
  qed
qed

lemma raters_consistent_raterIdInput_input:
  assumes "keys_distinct s"
  shows "raters_consistent (raterIdInput_input v s)"
  using assms
  by (simp add: raters_consistent_def keys_distinct_def raterIdInput_input_def
      propagateRaterIdAcrossRatings_def Let_def propagate_loop_distinct list_all_iff
      case_prod_unfold)

lemma keys_distinct_raterIdInput_input:
  "keys_distinct s \<Longrightarrow> keys_distinct (raterIdInput_input v s)"
  by (simp add: keys_distinct_def raterIdInput_input_def propagateRaterIdAcrossRatings_def
      Let_def propagate_loop_keys)

lemma keys_distinct_savePartialProgress:
  assumes "keys_distinct s" and "savePartialProgress now f s = Inr s'"
  shows "keys_distinct s'"
  using assms
  by (auto simp: keys_distinct_def savePartialProgress_def Let_def distinct_update
      split: if_splits option.splits)

lemma keys_distinct_saveCurrent:
  assumes "keys_distinct s" and "saveCurrent now f s = Inr (v, s')"
  shows "keys_distinct s'"
  using assms
  by (auto simp: keys_distinct_def saveCurrent_def Let_def distinct_update
      split: if_splits option.splits)

lemma consistent_go: "raters_consistent (go d s) = raters_consistent s"
  and distinct_go: "keys_distinct (go d s) = keys_distinct s"
  by (simp_all add: raters_consistent_def keys_distinct_def go_def Let_def)

section \<open>Key derivation in the progress loop\<close>

text \<open>
  An item with an \<open>id\<close> has the same key whatever the cursor is, so the loop of
  \<open>updateProgress\<close> does not depend on the cursor when every item has one. At the save
  sites the item is the one under the cursor.
\<close>

lemma makeKey_with_id:
  "nullish (map_of item ''id'') JNull \<noteq> JNull \<Longrightarrow> makeKey i item = makeKey j item"
  by (cases "map_of item ''id''"; cases "the (map_of item ''id'')") (simp_all add: makeKey_def)

lemma makeKey_at_position:
  "cursor_ok s \<Longrightarrow> dataset s \<noteq> [] \<Longrightarrow>
   nth_opt (dataset s) (index s) = Some (dataset s ! nat (index s))"
  by (simp add: cursor_ok_def nth_opt_def)

lemma progress_loop_with_ids:
  "list_all (\<lambda>item. nullish (map_of item ''id'') JNull \<noteq> JNull) items \<Longrightarrow>
   progress_loop i rs items n = progress_loop j rs items n"
proof (induction items arbitrary: n)
  case Nil
  then show ?case by simp
next
  case (Cons item items)
  then have "makeKey i item = makeKey j item" by (simp add: makeKey_with_id)
  with Cons show ?case by simp
qed

lemma autosave_first: "savePartialProgress ''t0'' full_form fresh_session = Inr rated_session"
  by code_simp

lemma progress_first: "updateProgress rated_session = \<lparr>labelled = 1, total = 2, pct = 50\<rparr>"
  by code_simp

lemma progress_second:
  "map_sum id (\<lambda>s. (index s, record_complete (ratingsById (state s)) ''0|a'', updateProgress s))
     (savePartialProgress ''t1'' blank_form (go 1 rated_session)) =
     Inr (1, True, \<lparr>labelled = 0, total = 2, pct = 0\<rparr>)"
  by code_simp

lemma key_at_cursor: "makeKey 0 (two_items ! 0) = ''0|a''"
  by code_simp

lemma key_off_cursor: "makeKey 1 (two_items ! 0) = ''1|a''"
  by code_simp

text \<open>
  Claim C2 at a failing input. The dataset holds two items without \<open>id\<close>. A partial
  autosave at position 0 stores a complete record under the key 0|a, and progress is 1 of
  2. After \<open>go 1\<close> and an autosave of an empty form at position 1, the record under 0|a
  is still complete, yet progress is 0 of 2: inside the loop \<open>makeKey\<close> falls back to the
  cursor 1, not to the position 0 of the item, and looks the first item up under 1|a.
\<close>

theorem progress_looks_up_under_cursor:
  "savePartialProgress ''t0'' full_form fresh_session = Inr rated_session \<and>
   updateProgress rated_session = \<lparr>labelled = 1, total = 2, pct = 50\<rparr> \<and>
   map_sum id (\<lambda>s. (index s, record_complete (ratingsById (state s)) ''0|a'', updateProgress s))
     (savePartialProgress ''t1'' blank_form (go 1 rated_session)) =
     Inr (1, True, \<lparr>labelled = 0, total = 2, pct = 0\<rparr>) \<and>
   makeKey 0 (two_items ! 0) = ''0|a'' \<and> makeKey 1 (two_items ! 0) = ''1|a''"
  by (intro conjI autosave_first progress_first progress_second key_at_cursor key_off_cursor)

theorem progress_looks_up_under_cursor_witness:
  "labelled (updateProgress rated_session) = 1 \<and>
   makeKey 1 (two_items ! 0) \<noteq> makeKey 0 (two_items ! 0)"
proof -
  from progress_looks_up_under_cursor
  have "updateProgress rated_session = \<lparr>labelled = 1, total = 2, pct = 50\<rparr>"
    and "makeKey 0 (two_items ! 0) = ''0|a''" and "makeKey 1 (two_items ! 0) = ''1|a''"
    by blast+
  then show ?thesis by simp
qed

end
